theory Spec2Isabelle
  imports Complex_Main "HOL-Library.AList"
begin

section \<open>Python values and errors\<close>

text \<open>
  Every \<open>raise\<close> of the source, and every exception a Python builtin raises on the
  paths followed here, is a value of \<open>pyerror\<close>.  Functions that can raise return
  \<open>pyerror + 'a\<close> with \<open>Inl\<close> for the exception.  Python floats are modelled
  as real numbers; strings as \<open>string\<close>.
\<close>

text \<open>
  The messages of \<open>BetaPeptideConsistencyError\<close>, with the values formatted into them:
  the residue number first, then the count found.
\<close>

datatype defect =
    LowestResidue int
  | AmideNHydrogens int nat
  | AmideNPrevCarbons int nat
  | AmideCOxygens int nat
  | AmideCNextNitrogens int nat
  | AmideNCACB int nat
  | AmideCCA int nat
  | MixedResidueNames

text \<open>
  \<open>CouldNotFit tol rms\<close> is the \<open>RuntimeError\<close> of \<open>safe_pairfit\<close>,
  \<open>'Could not fit with RMS less than {}. RMS is: {}'.format(rmstolerance, rms)\<close>.
\<close>

datatype pyerror =
    TypeError string
  | KeyError string
  | IndexError
  | ValueError string
  | CmdException
  | BetaPeptideConsistencyError defect
  | CouldNotFit real real
  | UnboundLocalError string
  | AssertionError

section \<open>The secondary structure database (secstructdb.py)\<close>

subsection \<open>Instantiation: \<open>SecondaryStructureDB.__new__\<close>\<close>

text \<open>
  \<^verbatim>\<open>
  _instance = None
  def __new__(cls):
      if cls._instance is None:
          obj = super().__new__()
          cls._instance = obj
      return cls._instance
  \<close>
  The class attribute \<open>_instance\<close> is the only state.  \<open>super().__new__\<close> is the
  builtin \<open>object.__new__\<close>, a static method: its first positional argument is the class
  to instantiate, and a call without arguments raises \<open>TypeError\<close>.
\<close>

datatype pyclass = SecondaryStructureDB_class

datatype pyobj = Instance pyclass

definition object_new :: "pyclass list \<Rightarrow> pyerror + pyobj" where
  "object_new args =
     (case args of
        [] \<Rightarrow> Inl (TypeError ''object.__new__(): not enough arguments'')
      | c # _ \<Rightarrow> Inr (Instance c))"

record ssdb_class =
  instance_attr :: "pyobj option"

definition ssdb_class_initial :: ssdb_class where
  "ssdb_class_initial = \<lparr> instance_attr = None \<rparr>"

definition SecondaryStructureDB_new :: "ssdb_class \<Rightarrow> (pyerror + pyobj) \<times> ssdb_class" where
  "SecondaryStructureDB_new cls =
     (case instance_attr cls of
        None \<Rightarrow>
          (case object_new [] of
             Inl e \<Rightarrow> (Inl e, cls)
           | Inr obj \<Rightarrow> (Inr obj, cls\<lparr>instance_attr := Some obj\<rparr>))
      | Some obj \<Rightarrow> (Inr obj, cls))"

text \<open>\<open>n\<close> successive attempts to instantiate; the results in order, and the class afterwards.\<close>

fun instantiate_times :: "nat \<Rightarrow> ssdb_class \<Rightarrow> (pyerror + pyobj) list \<times> ssdb_class" where
  "instantiate_times 0 cls = ([], cls)"
| "instantiate_times (Suc n) cls =
     (let (r, cls') = SecondaryStructureDB_new cls;
          (rs, cls'') = instantiate_times n cls'
      in (r # rs, cls''))"

definition is_TypeError :: "pyerror + 'a \<Rightarrow> bool" where
  "is_TypeError r = (case r of Inl (TypeError _) \<Rightarrow> True | _ \<Rightarrow> False)"

lemma new_without_instance:
  "instance_attr cls = None \<Longrightarrow>
   SecondaryStructureDB_new cls =
     (Inl (TypeError ''object.__new__(): not enough arguments''), cls)"
  by (simp add: SecondaryStructureDB_new_def object_new_def)

lemma instantiate_times_none:
  "instance_attr cls = None \<Longrightarrow>
   instantiate_times n cls =
     (replicate n (Inl (TypeError ''object.__new__(): not enough arguments'')), cls)"
  by (induction n arbitrary: cls) (simp_all add: new_without_instance)

text \<open>
  Claim C10.  Starting from the class as it is defined (\<open>_instance = None\<close>), every one of
  any number of attempts to instantiate \<open>SecondaryStructureDB\<close> raises \<open>TypeError\<close>, and
  \<open>_instance\<close> is still \<open>None\<close> afterwards: no call ever returns an instance, so the
  operations of the database are only reachable through the class.
\<close>

theorem ssdb_instantiation_always_raises:
  "list_all is_TypeError (fst (instantiate_times n ssdb_class_initial)) \<and>
   length (fst (instantiate_times n ssdb_class_initial)) = n \<and>
   instance_attr (snd (instantiate_times n ssdb_class_initial)) = None"
  by (simp add: instantiate_times_none ssdb_class_initial_def is_TypeError_def list_all_length)

theorem ssdb_instantiation_always_raises_witness:
  "fst (instantiate_times 2 ssdb_class_initial) =
     [Inl (TypeError ''object.__new__(): not enough arguments''),
      Inl (TypeError ''object.__new__(): not enough arguments'')] \<and>
   list_all is_TypeError (fst (instantiate_times 2 ssdb_class_initial)) \<and>
   instance_attr (snd (instantiate_times 2 ssdb_class_initial)) = None"
  using ssdb_instantiation_always_raises [of 2]
  by (simp add: SecondaryStructureDB_new_def object_new_def ssdb_class_initial_def
      numeral_2_eq_2 is_TypeError_def)

subsection \<open>The stored entries: \<open>DEFAULT_HELIXTYPES\<close>, \<open>getAll\<close>, \<open>dihedrals\<close>\<close>

text \<open>
  An entry maps a name to \<open>(phi, theta, psi)\<close>; \<open>theta\<close> is \<open>None\<close> for the secondary
  structures of alpha-peptides.  A Python \<open>dict\<close> is an association list in insertion
  order whose keys are distinct.
\<close>

type_synonym angles = "real \<times> real option \<times> real"

type_synonym ssdict = "(string \<times> angles) list"

definition DEFAULT_HELIXTYPES :: ssdict where
  "DEFAULT_HELIXTYPES =
     [(''Z6M'', (126.7, Some 62.6, 152.7)),
      (''Z6P'', (-126.7, Some (-62.6), -152.7)),
      (''Z8M'', (47.5, Some 53.5, -104.3)),
      (''Z8P'', (-47.5, Some (-53.5), 104.3)),
      (''H8M'', (76.8, Some (-120.6), 52.7)),
      (''H8P'', (-76.8, Some 120.6, -52.7)),
      (''H10M'', (-77.5, Some (-51.8), -75.1)),
      (''H10P'', (77.5, Some 51.8, 75.1)),
      (''H12M'', (92.3, Some (-90.0), 104.6)),
      (''H12P'', (-92.3, Some 90.0, -104.6)),
      (''H14M'', (-140.3, Some 66.5, -136.8)),
      (''H14P'', (140.3, Some (-66.5), 136.8)),
      (''SM'', (70.5, Some 176.2, 168.9)),
      (''SP'', (-70.5, Some (-176.2), -168.9)),
      (''Straight'', (180, Some 180, 180)),
      (''Straight alpha'', (180, None, 180)),
      (''Alpha-helix'', (-57, None, -47)),
      (''3_10-helix'', (-49, None, -26)),
      (''P-beta-sheet'', (-119, None, 113)),
      (''AP-beta-sheet'', (-139, None, 135))]"

text \<open>
  \<open>pymol.plugins.pref_get('BETAFAB_HELIXTYPES', cls.DEFAULT_HELIXTYPES)\<close>: the preference
  store of the host holds either nothing under that key or a dictionary.
\<close>

definition pref_get :: "ssdict option \<Rightarrow> ssdict" where
  "pref_get prefs = (case prefs of None \<Rightarrow> DEFAULT_HELIXTYPES | Some ss \<Rightarrow> ss)"

text \<open>\<open>dic.update(src)\<close>: a key already present keeps its place, a new key is appended.\<close>

definition dict_update :: "('k \<times> 'v) list \<Rightarrow> ('k \<times> 'v) list \<Rightarrow> ('k \<times> 'v) list" where
  "dict_update dic src = fold (\<lambda>(k, v). AList.update k v) src dic"

definition getAll :: "ssdict option \<Rightarrow> bool \<Rightarrow> bool \<Rightarrow> ssdict" where
  "getAll prefs alpha beta =
     (let ss = pref_get prefs;
          ssbeta = filter (\<lambda>(k, v). fst (snd v) \<noteq> None) ss;
          ssalpha = filter (\<lambda>(k, v). fst (snd v) = None) ss;
          dic = [];
          dic = dict_update dic (if alpha then ssalpha else []);
          dic = dict_update dic (if beta then ssbeta else [])
      in dic)"

definition dihedrals :: "ssdict option \<Rightarrow> string \<Rightarrow> pyerror + angles" where
  "dihedrals prefs name =
     (case map_of (getAll prefs True True) name of
        None \<Rightarrow> Inl (KeyError name)
      | Some v \<Rightarrow> Inr v)"

subsection \<open>Nearest-match lookup: \<open>find\<close>\<close>


text \<open>Python's \<open>min\<close> and \<open>max\<close> of a sequence; \<open>ValueError\<close> when it is empty.\<close>

definition py_min :: "'a::linorder list \<Rightarrow> pyerror + 'a" where
  "py_min xs =
     (case xs of
        [] \<Rightarrow> Inl (ValueError ''min() arg is an empty sequence'')
      | x # ys \<Rightarrow> Inr (fold min ys x))"

definition py_max :: "'a::linorder list \<Rightarrow> pyerror + 'a" where
  "py_max xs =
     (case xs of
        [] \<Rightarrow> Inl (ValueError ''max() arg is an empty sequence'')
      | x # ys \<Rightarrow> Inr (fold max ys x))"


















section \<open>The host: PyMOL objects, selections and commands\<close>

subsection \<open>Atoms, models and objects\<close>

text \<open>
  A \<open>chempy\<close> atom with the attributes the source reads and writes, and an indexed model
  (\<open>chempy.models.Indexed\<close>): the atoms, and the bonds as pairs of indices into them.
  The host holds named objects; an object is a model.
\<close>

type_synonym coord = "real \<times> real \<times> real"

record chempy_atom =
  name :: string
  resi_number :: int
  resn :: string
  symbol :: string
  coord :: coord

record indexed =
  atom :: "chempy_atom list"
  bond :: "(nat \<times> nat) list"

type_synonym host = "(string \<times> indexed) list"

subsection \<open>Selections\<close>

text \<open>
  The selection expressions the source formats into strings, as terms:
  \<open>model m\<close>, a bare object name \<open>(m)\<close>, \<open>resi n\<close>, \<open>name A+B\<close>, \<open>symbol C\<close>,
  \<open>a and b\<close>, \<open>not a\<close>, \<open>neighbor a\<close>.  \<open>neighbor a\<close> selects the atoms bonded to an
  atom of \<open>a\<close> that are not in \<open>a\<close> themselves.  Bonds join atoms of one object.
\<close>

datatype sel =
    Model string
  | Obj string
  | Resi int
  | Name "string list"
  | Symbol string
  | And sel sel
  | Not sel
  | Neighbor sel

definition bonded :: "indexed \<Rightarrow> nat \<Rightarrow> nat \<Rightarrow> bool" where
  "bonded m i j = ((i, j) \<in> set (bond m) \<or> (j, i) \<in> set (bond m))"

text \<open>\<open>in_sel obj m s i\<close>: atom number \<open>i\<close> of the object \<open>obj\<close>, whose model is \<open>m\<close>, is selected by \<open>s\<close>.\<close>

fun in_sel :: "string \<Rightarrow> indexed \<Rightarrow> sel \<Rightarrow> nat \<Rightarrow> bool" where
  "in_sel obj m (Model x) i = (x = obj)"
| "in_sel obj m (Obj x) i = (x = obj)"
| "in_sel obj m (Resi n) i = (resi_number (atom m ! i) = n)"
| "in_sel obj m (Name ns) i = (name (atom m ! i) \<in> set ns)"
| "in_sel obj m (Symbol x) i = (symbol (atom m ! i) = x)"
| "in_sel obj m (And a b) i = (in_sel obj m a i \<and> in_sel obj m b i)"
| "in_sel obj m (Not a) i = (\<not> in_sel obj m a i)"
| "in_sel obj m (Neighbor a) i =
     (\<not> in_sel obj m a i \<and>
      (\<exists>j \<in> set [0..<length (atom m)]. bonded m i j \<and> in_sel obj m a j))"

definition select_obj :: "string \<Rightarrow> indexed \<Rightarrow> sel \<Rightarrow> nat list" where
  "select_obj obj m s = filter (in_sel obj m s) [0..<length (atom m)]"

text \<open>\<open>cmd.count_atoms(s)\<close>.\<close>

definition count_atoms :: "host \<Rightarrow> sel \<Rightarrow> nat" where
  "count_atoms objs s = sum_list (map (\<lambda>(obj, m). length (select_obj obj m s)) objs)"

text \<open>The atom list of \<open>cmd.get_model(s)\<close>, which is all the source reads of it for a selection.\<close>

definition get_model_atoms :: "host \<Rightarrow> sel \<Rightarrow> chempy_atom list" where
  "get_model_atoms objs s =
     concat (map (\<lambda>(obj, m). map (\<lambda>i. atom m ! i) (select_obj obj m s)) objs)"

text \<open>\<open>cmd.get_model('model x')\<close>: the whole object; no atoms when there is no such object.\<close>

definition get_object :: "host \<Rightarrow> string \<Rightarrow> indexed" where
  "get_object objs x =
     (case map_of objs x of None \<Rightarrow> \<lparr>atom = [], bond = []\<rparr> | Some m \<Rightarrow> m)"

text \<open>\<open>cmd.delete('model x')\<close> and \<open>cmd.load_model(m, x)\<close>.\<close>

definition cmd_delete :: "string \<Rightarrow> host \<Rightarrow> host" where
  "cmd_delete x objs = filter (\<lambda>p. fst p \<noteq> x) objs"

definition cmd_load_model :: "indexed \<Rightarrow> string \<Rightarrow> host \<Rightarrow> host" where
  "cmd_load_model m x objs = AList.update x m objs"

text \<open>
  Leaving a \<open>with fetchModel(x) as model\<close> block (\<open>fetchModel.__exit__\<close>), normally or by
  an exception: the object is deleted and loaded again from the model that was fetched and
  possibly changed in the block.
\<close>

definition fetchModel_exit :: "host \<Rightarrow> string \<Rightarrow> indexed \<Rightarrow> host" where
  "fetchModel_exit objs x m = cmd_load_model m x (cmd_delete x objs)"

subsection \<open>Commands\<close>

text \<open>
  A function of the source that only issues commands is modelled by the list of commands
  it issues, in order.  \<open>Alter s p v\<close> is \<open>cmd.alter(s, 'p=v')\<close>.
\<close>

datatype host_cmd =
    Delete sel
  | Fragment string string
  | Load string string
  | Remove sel
  | Alter sel string string
  | Edit sel sel sel
  | Invert
  | Unpick
  | SetDihedral sel sel sel sel real
  | Fuse sel sel nat
  | Bond sel sel

section \<open>Building one residue (betafab2.py)\<close>

subsection \<open>\<open>BetaPeptide.SIDECHAINS\<close>\<close>

definition SIDECHAINS :: "(string \<times> string) list" where
  "SIDECHAINS =
     [(''A'', ''ala''), (''C'', ''cys''), (''CM'', ''cys''), (''D'', ''asp''),
      (''DH'', ''asph''), (''E'', ''glu''), (''EH'', ''gluh''), (''F'', ''phe''),
      (''G'', ''gly''), (''HD'', ''hid''), (''HE'', ''hie''), (''HH'', ''hip''),
      (''H'', ''his''), (''I'', ''ile''), (''K'', ''lys''), (''O'', ''orp''),
      (''KN'', ''lysn''), (''ON'', ''orn''), (''L'', ''leu''), (''M'', ''met''),
      (''N'', ''asn''), (''P'', ''pro''), (''Q'', ''gln''), (''R'', ''arg''),
      (''S'', ''ser''), (''T'', ''thr''), (''V'', ''val''), (''W'', ''trp''),
      (''Y'', ''tyr'')]"

subsection \<open>\<open>initializeAlphaResidue\<close>: the commands up to the renaming of the atoms\<close>

text \<open>
  The condition of the \<open>if\<close> that guards \<open>cmd.edit\<close>, \<open>cmd.invert\<close>, \<open>cmd.unpick\<close>,
  as the source writes it.
\<close>

definition needs_inversion :: "string \<Rightarrow> string \<Rightarrow> bool" where
  "needs_inversion sidechain stereo =
     (sidechain \<noteq> ''G'' \<and>
      (stereo = ''D'' \<or>
       (stereo = ''R'' \<and> sidechain \<notin> set [''C'', ''CM'']) \<or>
       (stereo = ''S'' \<and> sidechain \<in> set [''C'', ''CM''])))"

text \<open>
  \<open>fragment_known f\<close> says whether the fragment library of the host has \<open>f\<close>; when it has
  not, \<open>cmd.fragment\<close> raises \<open>CmdException\<close> and the fragment is loaded from the resource
  directory of the plugin.  \<open>SIDECHAINS[sidechain]\<close> raises \<open>KeyError\<close> on an unknown code.
  The result lists the commands issued before the atoms are renamed.
\<close>

definition initializeAlphaResidue ::
  "(string \<Rightarrow> bool) \<Rightarrow> string \<Rightarrow> string \<Rightarrow> string \<Rightarrow> pyerror + host_cmd list" where
  "initializeAlphaResidue fragment_known modelname sidechain stereo =
     (case map_of SIDECHAINS sidechain of
        None \<Rightarrow> Inl (KeyError sidechain)
      | Some frag \<Rightarrow>
          Inr ([Delete (Model modelname), Fragment frag modelname] @
               (if fragment_known frag then []
                else [Load (frag @ ''.pkl'') modelname]) @
               (if sidechain = ''CM''
                then [Remove (And (Model modelname) (Name [''HG''])),
                      Alter (And (Model modelname) (Name [''SG''])) ''formal_charge'' ''-1'',
                      Alter (And (Model modelname) (Name [''SG''])) ''partial_charge'' ''-1'',
                      Alter (Model modelname) ''resn'' ''CYM'']
                else []) @
               [Alter (Model modelname) ''resv'' ''1'',
                Alter (Model modelname) ''chain'' ''A''] @
               (if needs_inversion sidechain stereo
                then [Edit (And (And (Model modelname) (Resi 1)) (Name [''CA'']))
                           (And (And (Model modelname) (Resi 1)) (Name [''HA'']))
                           (And (And (Model modelname) (Resi 1)) (Name [''C''])),
                      Invert, Unpick]
                else [])))"

text \<open>The inversion at C-alpha was performed: the pivot is picked, then \<open>cmd.invert\<close>.\<close>

definition inverted_at_CA :: "string \<Rightarrow> host_cmd list \<Rightarrow> bool" where
  "inverted_at_CA modelname cmds =
     (Invert \<in> set cmds \<and>
      Edit (And (And (Model modelname) (Resi 1)) (Name [''CA'']))
           (And (And (Model modelname) (Resi 1)) (Name [''HA'']))
           (And (And (Model modelname) (Resi 1)) (Name [''C''])) \<in> set cmds)"

lemma invert_iff:
  "initializeAlphaResidue fragment_known modelname sc stereo = Inr cmds \<Longrightarrow>
   (Invert \<in> set cmds) = needs_inversion sc stereo"
  by (auto simp: initializeAlphaResidue_def split: option.splits if_splits)

lemma edit_iff:
  "initializeAlphaResidue fragment_known modelname sc stereo = Inr cmds \<Longrightarrow>
   (Edit (And (And (Model modelname) (Resi 1)) (Name [''CA'']))
           (And (And (Model modelname) (Resi 1)) (Name [''HA'']))
           (And (And (Model modelname) (Resi 1)) (Name [''C''])) \<in> set cmds) = needs_inversion sc stereo"
  by (auto simp: initializeAlphaResidue_def split: option.splits if_splits)

text \<open>
  Claim C8.  For every alpha residue that is built (the side chain code is known, so the
  commands are issued), the inversion at C-alpha, pivoting on HA and C, is performed
  exactly when the side chain is not glycine and either the stereo descriptor is D, or it
  is R and the side chain is not cysteine-like (C, CM), or it is S and the side chain is
  cysteine-like.  In particular L never inverts and glycine is never inverted.
\<close>

theorem alpha_inversion_rule:
  assumes "initializeAlphaResidue fragment_known modelname sc stereo = Inr cmds"
  shows "(inverted_at_CA modelname cmds \<longleftrightarrow>
            sc \<noteq> ''G'' \<and>
            (stereo = ''D'' \<or>
             (stereo = ''R'' \<and> sc \<noteq> ''C'' \<and> sc \<noteq> ''CM'') \<or>
             (stereo = ''S'' \<and> (sc = ''C'' \<or> sc = ''CM'')))) \<and>
         (Invert \<in> set cmds \<longleftrightarrow> inverted_at_CA modelname cmds) \<and>
         (stereo = ''L'' \<longrightarrow> Invert \<notin> set cmds) \<and>
         (sc = ''G'' \<longrightarrow> Invert \<notin> set cmds)"
proof -
  have n: "needs_inversion sc stereo \<longleftrightarrow>
            sc \<noteq> ''G'' \<and>
            (stereo = ''D'' \<or>
             (stereo = ''R'' \<and> sc \<noteq> ''C'' \<and> sc \<noteq> ''CM'') \<or>
             (stereo = ''S'' \<and> (sc = ''C'' \<or> sc = ''CM'')))"
    unfolding needs_inversion_def by simp
  have l: "stereo = ''L'' \<longrightarrow> \<not> needs_inversion sc stereo"
    unfolding needs_inversion_def by simp
  have g: "sc = ''G'' \<longrightarrow> \<not> needs_inversion sc stereo"
    unfolding needs_inversion_def by simp
  show ?thesis
    unfolding inverted_at_CA_def invert_iff [OF assms] edit_iff [OF assms]
    using n l g by blast
qed

theorem alpha_inversion_rule_witness:
  "initializeAlphaResidue (\<lambda>f. True) ''m'' ''V'' ''R'' =
     Inr [Delete (Model ''m''), Fragment ''val'' ''m'',
          Alter (Model ''m'') ''resv'' ''1'', Alter (Model ''m'') ''chain'' ''A'',
          Edit (And (And (Model ''m'') (Resi 1)) (Name [''CA''])) (And (And (Model ''m'') (Resi 1)) (Name [''HA'']))
               (And (And (Model ''m'') (Resi 1)) (Name [''C''])),
          Invert, Unpick] \<and>
   inverted_at_CA ''m''
     [Delete (Model ''m''), Fragment ''val'' ''m'',
      Alter (Model ''m'') ''resv'' ''1'', Alter (Model ''m'') ''chain'' ''A'',
      Edit (And (And (Model ''m'') (Resi 1)) (Name [''CA''])) (And (And (Model ''m'') (Resi 1)) (Name [''HA'']))
           (And (And (Model ''m'') (Resi 1)) (Name [''C''])),
      Invert, Unpick]"
proof -
  have r: "initializeAlphaResidue (\<lambda>f. True) ''m'' ''V'' ''R'' =
     Inr [Delete (Model ''m''), Fragment ''val'' ''m'',
          Alter (Model ''m'') ''resv'' ''1'', Alter (Model ''m'') ''chain'' ''A'',
          Edit (And (And (Model ''m'') (Resi 1)) (Name [''CA''])) (And (And (Model ''m'') (Resi 1)) (Name [''HA'']))
               (And (And (Model ''m'') (Resi 1)) (Name [''C''])),
          Invert, Unpick]"
    by (simp add: initializeAlphaResidue_def SIDECHAINS_def needs_inversion_def)
  from alpha_inversion_rule [OF r] r show ?thesis by simp
qed

section \<open>Validating a chain: \<open>checkPeptide\<close> (betafab2.py)\<close>

text \<open>
  The six counts taken for residue \<open>i\<close> of the model \<open>mn\<close>, with the selections as the
  source formats them.
\<close>

definition hcount :: "host \<Rightarrow> string \<Rightarrow> int \<Rightarrow> nat" where
  "hcount objs mn i =
     count_atoms objs
       (And (And (And (Model mn) (Resi i)) (Neighbor (Name [''N'']))) (Name [''H'', ''HN'']))"

definition ccount :: "host \<Rightarrow> string \<Rightarrow> int \<Rightarrow> nat" where
  "ccount objs mn i =
     count_atoms objs
       (And (Neighbor (And (And (Model mn) (Resi i)) (Name [''N''])))
            (And (Resi (i - 1)) (Name [''C''])))"

definition ocount :: "host \<Rightarrow> string \<Rightarrow> int \<Rightarrow> nat" where
  "ocount objs mn i =
     count_atoms objs
       (And (And (And (Model mn) (Resi i)) (Neighbor (Name [''C'']))) (Name [''O'']))"

definition ncount :: "host \<Rightarrow> string \<Rightarrow> int \<Rightarrow> nat" where
  "ncount objs mn i =
     count_atoms objs
       (And (Neighbor (And (And (Model mn) (Resi i)) (Name [''C''])))
            (And (Resi (i + 1)) (Name [''N''])))"

definition cbcount :: "host \<Rightarrow> string \<Rightarrow> int \<Rightarrow> nat" where
  "cbcount objs mn i =
     count_atoms objs
       (And (And (And (Model mn) (Resi i)) (Neighbor (Name [''N''])))
            (Name [''CB'', ''CB1'', ''CA'']))"

definition cacount :: "host \<Rightarrow> string \<Rightarrow> int \<Rightarrow> nat" where
  "cacount objs mn i =
     count_atoms objs
       (And (And (And (Model mn) (Resi i)) (Neighbor (Name [''C'']))) (Name [''CA'']))"

text \<open>
  \<open>cmd.get_model('model mn and resi i').atom[0].resn\<close>; \<open>IndexError\<close> when residue
  \<open>i\<close> has no atom.
\<close>

definition resname_of :: "host \<Rightarrow> string \<Rightarrow> int \<Rightarrow> pyerror + string" where
  "resname_of objs mn i =
     (case get_model_atoms objs (And (Model mn) (Resi i)) of
        [] \<Rightarrow> Inl IndexError
      | a # _ \<Rightarrow> Inr (resn a))"

text \<open>
  The body of the loop over the residues, for residue \<open>i\<close>.  The nested \<open>if\<close>s of the
  source are written as one chain in the order in which the source raises.
\<close>

definition check_residue :: "host \<Rightarrow> string \<Rightarrow> int \<Rightarrow> int \<Rightarrow> pyerror + unit" where
  "check_residue objs mn maxresidue i =
     (case resname_of objs mn i of
        Inl e \<Rightarrow> Inl e
      | Inr resname \<Rightarrow>
          if i > 1 \<and> resname \<notin> set [''PRO'', ''DPRO''] \<and> hcount objs mn i \<noteq> 1
          then Inl (BetaPeptideConsistencyError (AmideNHydrogens i (hcount objs mn i)))
          else if i > 1 \<and> resname \<notin> set [''PRO'', ''DPRO''] \<and> ccount objs mn i \<noteq> 1
          then Inl (BetaPeptideConsistencyError (AmideNPrevCarbons i (ccount objs mn i)))
          else if i < maxresidue \<and> ocount objs mn i \<noteq> 1
          then Inl (BetaPeptideConsistencyError (AmideCOxygens i (ocount objs mn i)))
          else if i < maxresidue \<and> ncount objs mn i \<noteq> 1
          then Inl (BetaPeptideConsistencyError (AmideCNextNitrogens i (ncount objs mn i)))
          else if cbcount objs mn i \<noteq> 1 \<and> resname \<noteq> ''NME'' \<and> resname \<noteq> ''ACE''
                  \<and> resname \<noteq> ''BUT''
          then Inl (BetaPeptideConsistencyError (AmideNCACB i (cbcount objs mn i)))
          else if cacount objs mn i \<noteq> 1 \<and> resname \<noteq> ''ACE'' \<and> resname \<noteq> ''NME''
          then Inl (BetaPeptideConsistencyError (AmideCCA i (cacount objs mn i)))
          else Inr ())"

text \<open>\<open>for i in range(1, maxresidue + 1)\<close>: the first exception ends the loop.\<close>

fun check_residues :: "host \<Rightarrow> string \<Rightarrow> int \<Rightarrow> int list \<Rightarrow> pyerror + unit" where
  "check_residues objs mn maxresidue [] = Inr ()"
| "check_residues objs mn maxresidue (i # rest) =
     (case check_residue objs mn maxresidue i of
        Inl e \<Rightarrow> Inl e
      | Inr _ \<Rightarrow> check_residues objs mn maxresidue rest)"

text \<open>
  \<open>checkPeptide\<close> returns nothing or raises; the host is returned too, since the
  \<open>with fetchModel\<close> block at the start reloads the object.
\<close>

definition checkPeptide :: "host \<Rightarrow> string \<Rightarrow> (pyerror + unit) \<times> host" where
  "checkPeptide objs mn =
     (let model = get_object objs mn;
          objs1 = fetchModel_exit objs mn model
      in case py_min (map resi_number (atom model)) of
           Inl e \<Rightarrow> (Inl e, objs1)
         | Inr minresidue \<Rightarrow>
             (case py_max (map resi_number (atom model)) of
                Inl e \<Rightarrow> (Inl e, objs1)
              | Inr maxresidue \<Rightarrow>
                  if minresidue \<noteq> 1
                  then (Inl (BetaPeptideConsistencyError (LowestResidue minresidue)), objs1)
                  else (check_residues objs1 mn maxresidue [1..maxresidue], objs1)))"





































section \<open>Setting a dihedral: \<open>set_dihedral\<close> (utils.py)\<close>

text \<open>\<open>str.split(c)\<close>, used here for the \<open>+\<close> of a \<open>name A+B\<close> clause as the host reads it.\<close>

fun split_on :: "char \<Rightarrow> string \<Rightarrow> string list" where
  "split_on c [] = [[]]"
| "split_on c (x # xs) =
     (if x = c then [] # split_on c xs
      else (case split_on c xs of
              w # ws \<Rightarrow> (x # w) # ws
            | [] \<Rightarrow> [[x]]))"









section \<open>The host as a state: commands that move atoms\<close>

text \<open>
  What the host computes is taken as given: the least-squares fit of \<open>cmd.pair_fit\<close>
  (the residual RMS and the motion it applies, or an exception), the motion of
  \<open>cmd.rotate\<close> about an axis by an angle, the numbers the module \<open>random\<close> draws, and
  the content of the bundled \<open>peptidebond.pkl\<close>.
\<close>

record pymol =
  pair_fit_result :: "(sel \<times> sel) list \<Rightarrow> host \<Rightarrow> pyerror + real \<times> (coord \<Rightarrow> coord)"
  rotation :: "char \<Rightarrow> int \<Rightarrow> host \<Rightarrow> coord \<Rightarrow> coord"
  random_source :: "nat \<Rightarrow> nat"
  peptidebond_pkl :: indexed

text \<open>
  The state the source acts on: the objects of the host; the commands issued so far that
  load a file, move atoms or join objects (the most recent last; a fit is recorded with
  the RMS it returned); how many random numbers were drawn; and
  \<open>tempObjectName.tempobjnames\<close>.
\<close>

datatype event =
    PairFit "(sel \<times> sel) list" real
  | Rotate char int sel
  | Issued host_cmd

record world =
  objects :: host
  issued :: "event list"
  draws :: nat
  tempobjnames :: "string list"

definition issue :: "event \<Rightarrow> world \<Rightarrow> world" where
  "issue c w = w\<lparr>issued := issued w @ [c]\<rparr>"

definition move_atom :: "(coord \<Rightarrow> coord) \<Rightarrow> chempy_atom \<Rightarrow> chempy_atom" where
  "move_atom T a = a\<lparr>coord := T (coord a)\<rparr>"

text \<open>
  \<open>cmd.pair_fit(*selections)\<close> moves the objects of the first selection of each pair as
  a whole and returns the RMS; \<open>cmd.rotate(axis, angle, s)\<close> moves the atoms of \<open>s\<close>.
\<close>

definition cmd_pair_fit :: "pymol \<Rightarrow> (sel \<times> sel) list \<Rightarrow> world \<Rightarrow> (pyerror + real) \<times> world" where
  "cmd_pair_fit py sels w =
     (case pair_fit_result py sels (objects w) of
        Inl e \<Rightarrow> (Inl e, w)
      | Inr (rms, T) \<Rightarrow>
          (Inr rms,
           issue (PairFit sels rms)
             (w\<lparr>objects :=
                  map (\<lambda>(obj, m).
                         if \<exists>s \<in> set (map fst sels). select_obj obj m s \<noteq> []
                         then (obj, m\<lparr>atom := map (move_atom T) (atom m)\<rparr>)
                         else (obj, m))
                      (objects w)\<rparr>)))"

definition cmd_rotate :: "pymol \<Rightarrow> char \<Rightarrow> int \<Rightarrow> sel \<Rightarrow> world \<Rightarrow> world" where
  "cmd_rotate py axis angle s w =
     issue (Rotate axis angle s)
       (w\<lparr>objects :=
            map (\<lambda>(obj, m).
                   (obj, m\<lparr>atom := map (\<lambda>i. if in_sel obj m s i
                                            then move_atom (rotation py axis angle (objects w))
                                                   (atom m ! i)
                                            else atom m ! i)
                                     [0..<length (atom m)]\<rparr>))
                (objects w)\<rparr>)"

text \<open>\<open>random.randint(a, b)\<close> with \<open>a \<le> b\<close>, and \<open>random.randrange(a, b)\<close>.\<close>

definition random_randint :: "pymol \<Rightarrow> nat \<Rightarrow> nat \<Rightarrow> world \<Rightarrow> nat \<times> world" where
  "random_randint py a b w =
     (a + random_source py (draws w) mod (b - a + 1), w\<lparr>draws := Suc (draws w)\<rparr>)"

definition random_randrange :: "pymol \<Rightarrow> nat \<Rightarrow> nat \<Rightarrow> world \<Rightarrow> nat \<times> world" where
  "random_randrange py a b w = random_randint py a (b - 1) w"

section \<open>Fitting with retries: \<open>safe_pairfit\<close> (betafab2.py)\<close>

text \<open>
  \<open>selections1\<close>, \<open>selections2\<close> and their pairing by \<open>zip\<close>; \<open>model1\<close> and \<open>model2\<close>
  are themselves selections (\<open>'model x'\<close> at every call).
\<close>

definition pairfit_selections ::
  "sel \<Rightarrow> sel \<Rightarrow> int \<Rightarrow> int \<Rightarrow> string list \<Rightarrow> string list \<Rightarrow> (sel \<times> sel) list" where
  "pairfit_selections model1 model2 resi1 resi2 atoms1 atoms2 =
     zip (map (\<lambda>n. And (And model1 (Resi resi1)) (Name (split_on CHR ''+'' n))) atoms1)
         (map (\<lambda>n. And (And model2 (Resi resi2)) (Name (split_on CHR ''+'' n))) atoms2)"

text \<open>
  The \<open>for i in range(ntries)\<close> loop with its \<open>else\<close> branch; \<open>n\<close> tries remain and
  \<open>rms\<close> is the value of the variable \<open>rms\<close>, unbound before the first fit.
\<close>

fun pairfit_tries ::
  "pymol \<Rightarrow> (sel \<times> sel) list \<Rightarrow> sel \<Rightarrow> real \<Rightarrow> nat \<Rightarrow> real option \<Rightarrow> world
   \<Rightarrow> (pyerror + real) \<times> world" where
  "pairfit_tries py sels model1 rmstolerance 0 rms w =
     (case rms of
        None \<Rightarrow> (Inl (UnboundLocalError ''rms''), w)
      | Some r \<Rightarrow> (Inl (CouldNotFit rmstolerance r), w))"
| "pairfit_tries py sels model1 rmstolerance (Suc n) rms w =
     (case cmd_pair_fit py sels w of
        (Inl e, w1) \<Rightarrow> (Inl e, w1)
      | (Inr r, w1) \<Rightarrow>
          if r < rmstolerance then (Inr r, w1)
          else (let (k, w2) = random_randint py 0 2 w1;
                    (angle, w3) = random_randrange py 0 360 w2
                in pairfit_tries py sels model1 rmstolerance n (Some r)
                     (cmd_rotate py (''xyz'' ! k) (int angle) model1 w3)))"

definition safe_pairfit ::
  "pymol \<Rightarrow> sel \<Rightarrow> sel \<Rightarrow> int \<Rightarrow> int \<Rightarrow> string list \<Rightarrow> string list \<Rightarrow> real \<Rightarrow> nat \<Rightarrow> world
   \<Rightarrow> (pyerror + real) \<times> world" where
  "safe_pairfit py model1 model2 resi1 resi2 atoms1 atoms2 rmstolerance ntries w =
     pairfit_tries py (pairfit_selections model1 model2 resi1 resi2 atoms1 atoms2)
       model1 rmstolerance ntries None w"

text \<open>
  The two fits of \<open>__iadd__\<close>, with \<open>ntries\<close> left at its default of 10: the C-terminus
  of the left fragment onto the mould, and the N-terminus of the right fragment onto it.
  \<open>proline1\<close> and \<open>proline2\<close> are the two evaluations of
  \<open>right.startsWithProline()\<close> in the argument list, the first for the atom name and
  the second for the tolerance.
\<close>

definition fit_left :: "pymol \<Rightarrow> string \<Rightarrow> string \<Rightarrow> int \<Rightarrow> world \<Rightarrow> (pyerror + real) \<times> world" where
  "fit_left py lefttemp mouldname maxleft w =
     safe_pairfit py (Model lefttemp) (Model mouldname) maxleft 1
       [''CA+CH3'', ''C'', ''O''] [''Cprev'', ''C'', ''O''] 0.1 10 w"

definition fit_right ::
  "pymol \<Rightarrow> string \<Rightarrow> string \<Rightarrow> int \<Rightarrow> bool \<Rightarrow> bool \<Rightarrow> string \<Rightarrow> world
   \<Rightarrow> (pyerror + real) \<times> world" where
  "fit_right py righttemp mouldname maxleft proline1 proline2 cbname w =
     safe_pairfit py (Model righttemp) (Model mouldname) (1 + maxleft) 1
       [''N'', if \<not> proline1 then ''H'' else ''CD'', cbname] [''N'', ''H'', ''Cnext'']
       (if \<not> proline2 then 0.1 else 0.3) 10 w"

















section \<open>Joining two chains: \<open>__iadd__\<close> (betafab2.py)\<close>

subsection \<open>Actions on the state\<close>

text \<open>
  A method of the source that reads or changes the host is a function from the state to
  its result, or the exception it raises, and the state it leaves.
\<close>

type_synonym 'a action = "world \<Rightarrow> (pyerror + 'a) \<times> world"

definition and_then :: "'a action \<Rightarrow> ('a \<Rightarrow> 'b action) \<Rightarrow> 'b action" where
  "and_then f g w = (case f w of (Inl e, w') \<Rightarrow> (Inl e, w') | (Inr x, w') \<Rightarrow> g x w')"

definition ret :: "'a \<Rightarrow> 'a action" where
  "ret x w = (Inr x, w)"

definition raise :: "pyerror \<Rightarrow> 'a action" where
  "raise e w = (Inl e, w)"

text \<open>Leaving a \<open>with fetchModel(x) as model\<close> block with the model \<open>m\<close>.\<close>

definition reload :: "string \<Rightarrow> indexed \<Rightarrow> world \<Rightarrow> world" where
  "reload x m w = w\<lparr>objects := fetchModel_exit (objects w) x m\<rparr>"

subsection \<open>\<open>maxResidue\<close>, \<open>isNProtected\<close>, \<open>isCProtected\<close>, \<open>startsWithProline\<close>, \<open>copy\<close>\<close>

definition maxResidue :: "string \<Rightarrow> int action" where
  "maxResidue mn w =
     (let model = get_object (objects w) mn
      in (py_max (map resi_number (atom model)), reload mn model w))"

definition isNProtected :: "host \<Rightarrow> string \<Rightarrow> bool" where
  "isNProtected objs mn =
     (count_atoms objs
        (And (Neighbor (And (And (Model mn) (Name [''N''])) (Resi 1)))
             (Not (Name [''CB'', ''CB1'', ''CA'', ''H'', ''HN'', ''CH3'']))) > 0)"

definition isCProtected :: "string \<Rightarrow> bool action" where
  "isCProtected mn =
     and_then (maxResidue mn) (\<lambda>maxresidue w.
       (Inr (count_atoms (objects w)
               (And (Neighbor (And (And (Model mn) (Name [''C''])) (Resi maxresidue)))
                    (Not (Name [''O'', ''CA'', ''CH3'']))) > 0), w))"

text \<open>
  \<open>firstresidue\<close> is a set of residue names: its elements without repetition.  The
  \<open>assert\<close> fails when it is empty.
\<close>

definition startsWithProline :: "string \<Rightarrow> bool action" where
  "startsWithProline mn w =
     (let m = get_object (objects w) mn;
          w' = reload mn m w
      in case py_min (map resi_number (atom m)) of
           Inl e \<Rightarrow> (Inl e, w')
         | Inr minresi \<Rightarrow>
             (case remdups (map resn (filter (\<lambda>a. resi_number a = minresi) (atom m))) of
                [] \<Rightarrow> (Inl AssertionError, w')
              | [rn] \<Rightarrow> (Inr (rn \<in> set [''PRO'', ''DPRO'']), w')
              | _ \<Rightarrow> (Inl (BetaPeptideConsistencyError MixedResidueNames), w')))"

text \<open>\<open>self.copy(newname)\<close> for the peptide \<open>mn\<close>; the new peptide is known by its name.\<close>

definition copy :: "string \<Rightarrow> string \<Rightarrow> string action" where
  "copy mn newname w =
     (let model = get_object (objects w) mn
      in (Inr newname,
          w\<lparr>objects := cmd_load_model model newname (cmd_delete newname (objects w))\<rparr>))"

definition checkPeptide_action :: "string \<Rightarrow> unit action" where
  "checkPeptide_action mn w =
     (case checkPeptide (objects w) mn of (r, objs) \<Rightarrow> (r, w\<lparr>objects := objs\<rparr>))"

subsection \<open>The host commands of the fusion\<close>

text \<open>\<open>loadPeptideBond(objectname)\<close>: \<open>cmd.load\<close> of the bundled file into a new object.\<close>

definition loadPeptideBond :: "pymol \<Rightarrow> string \<Rightarrow> string action" where
  "loadPeptideBond py objectname w =
     (Inr objectname,
      issue (Issued (Load ''peptidebond.pkl'' objectname))
        (w\<lparr>objects := cmd_load_model (peptidebond_pkl py) objectname (objects w)\<rparr>))"

text \<open>
  \<open>cmd.fuse(s1, s2, mode=3)\<close>, for two selections of one atom each: a copy of the object
  of the first atom is combined into the object of the second, without moving it and
  without a bond.  The atoms of the copy follow those of the object, and its bonds are
  renumbered accordingly.  Other selections are refused by the host.
\<close>

definition sel_objects :: "host \<Rightarrow> sel \<Rightarrow> (string \<times> indexed) list" where
  "sel_objects objs s = filter (\<lambda>(obj, m). select_obj obj m s \<noteq> []) objs"

definition combine :: "indexed \<Rightarrow> indexed \<Rightarrow> indexed" where
  "combine m2 m1 =
     \<lparr>atom = atom m2 @ atom m1,
      bond = bond m2 @ map (\<lambda>(i, j). (i + length (atom m2), j + length (atom m2))) (bond m1)\<rparr>"

definition cmd_fuse :: "sel \<Rightarrow> sel \<Rightarrow> unit action" where
  "cmd_fuse s1 s2 w =
     (if count_atoms (objects w) s1 = 1 \<and> count_atoms (objects w) s2 = 1
      then (case (sel_objects (objects w) s1, sel_objects (objects w) s2) of
              ([(o1, m1)], [(o2, m2)]) \<Rightarrow>
                (Inr (),
                 issue (Issued (Fuse s1 s2 3))
                   (w\<lparr>objects := cmd_load_model (combine m2 m1) o2 (objects w)\<rparr>))
            | _ \<Rightarrow> (Inl CmdException, w))
      else (Inl CmdException, w))"

text \<open>\<open>cmd.bond(s1, s2)\<close>: a bond between every atom of \<open>s1\<close> and every atom of \<open>s2\<close> of the same object.\<close>

definition cmd_bond :: "sel \<Rightarrow> sel \<Rightarrow> unit action" where
  "cmd_bond s1 s2 w =
     (Inr (),
      issue (Issued (Bond s1 s2))
        (w\<lparr>objects :=
             map (\<lambda>(obj, m).
                    (obj, m\<lparr>bond := bond m @
                               concat (map (\<lambda>i. map (\<lambda>j. (i, j))
                                                   (filter (\<lambda>j. i \<noteq> j \<and> \<not> bonded m i j)
                                                      (select_obj obj m s2)))
                                           (select_obj obj m s1))\<rparr>))
                 (objects w)\<rparr>))"

subsection \<open>Temporary object names\<close>

text \<open>
  \<open>tempObjectName.__enter__\<close> leaves its loop with a name that is neither an object of
  the host nor in \<open>tempobjnames\<close>; which name depends on the clock and is taken as
  given.  \<open>__exit__\<close> deletes the object of that name and forgets the name.  A \<open>with\<close>
  statement with several names enters them in order and leaves them in reverse order,
  also when the body raises.
\<close>

definition enter_temp :: "string \<Rightarrow> world \<Rightarrow> world" where
  "enter_temp n w = w\<lparr>tempobjnames := tempobjnames w @ [n]\<rparr>"

definition exit_temp :: "string \<Rightarrow> world \<Rightarrow> world" where
  "exit_temp n w =
     w\<lparr>objects := cmd_delete n (objects w), tempobjnames := remove1 n (tempobjnames w)\<rparr>"

definition with_temp_names :: "string list \<Rightarrow> 'a action \<Rightarrow> 'a action" where
  "with_temp_names ns body w =
     (case body (fold enter_temp ns w) of (r, w') \<Rightarrow> (r, fold exit_temp (rev ns) w'))"

subsection \<open>\<open>__iadd__\<close>\<close>

text \<open>
  \<open>with fetchModel(righttemp) as model: for a in model.atom: a.resi_number += maxleft\<close>,
  and the name of the first carbon other than C bonded to the N of residue \<open>i\<close>.
\<close>

definition renumber :: "string \<Rightarrow> int \<Rightarrow> unit action" where
  "renumber mn maxleft w =
     (let model = get_object (objects w) mn
      in (Inr (),
          reload mn
            (model\<lparr>atom := map (\<lambda>a. a\<lparr>resi_number := resi_number a + maxleft\<rparr>) (atom model)\<rparr>)
            w))"

definition cbname_of :: "string \<Rightarrow> int \<Rightarrow> string action" where
  "cbname_of mn i w =
     (case get_model_atoms (objects w)
             (And (And (Neighbor (And (And (Model mn) (Resi i)) (Name [''N''])))
                       (Symbol ''C''))
                  (Not (Name [''C'']))) of
        [] \<Rightarrow> (Inl IndexError, w)
      | a # _ \<Rightarrow> (Inr (name a), w))"

text \<open>
  The body of the \<open>with\<close> block.  \<open>self_name\<close> is \<open>self._modelname\<close>; inside the block
  \<open>left\<close> and \<open>right\<close> are the temporary copies.
\<close>

definition fusion :: "pymol \<Rightarrow> string \<Rightarrow> string \<Rightarrow> string \<Rightarrow> string \<Rightarrow> string \<Rightarrow> string action" where
  "fusion py mouldname lefttemp righttemp self_name right_name =
     and_then (loadPeptideBond py mouldname) (\<lambda>_.
     and_then (copy self_name lefttemp) (\<lambda>_.
     and_then (copy right_name righttemp) (\<lambda>_.
     and_then (maxResidue lefttemp) (\<lambda>maxleft.
     and_then (renumber righttemp maxleft) (\<lambda>_.
     and_then (fit_left py lefttemp mouldname maxleft) (\<lambda>_.
     and_then (cbname_of righttemp (1 + maxleft)) (\<lambda>cbname.
     and_then (startsWithProline righttemp) (\<lambda>proline1.
     and_then (startsWithProline righttemp) (\<lambda>proline2.
     and_then (fit_right py righttemp mouldname maxleft proline1 proline2 cbname) (\<lambda>_.
     and_then (cmd_fuse (And (And (Model lefttemp) (Resi maxleft)) (Name [''C'']))
                        (And (And (Model righttemp) (Resi (1 + maxleft))) (Name [''N'']))) (\<lambda>_.
     and_then (cmd_bond (And (And (Model righttemp) (Resi maxleft)) (Name [''C'']))
                        (And (And (Model righttemp) (Resi (1 + maxleft))) (Name [''N'']))) (\<lambda>_.
     copy righttemp self_name))))))))))))"

text \<open>
  \<open>left += right\<close> for the peptides named \<open>left\<close> and \<open>right\<close>; the three temporary
  names are those \<open>tempObjectName\<close> picks.  The result is the name of the joined peptide.
\<close>

definition iadd :: "pymol \<Rightarrow> string \<times> string \<times> string \<Rightarrow> string \<Rightarrow> string \<Rightarrow> string action" where
  "iadd py temps left right =
     (case temps of (mouldname, lefttemp, righttemp) \<Rightarrow>
        and_then (isCProtected left) (\<lambda>cprotected.
        if cprotected then raise (ValueError ''The N-terminal part is C-protected!'')
        else
        and_then (\<lambda>w. if isNProtected (objects w) right
                      then and_then (startsWithProline right) (\<lambda>p. ret (\<not> p)) w
                      else ret False w) (\<lambda>nprotected.
        if nprotected then raise (ValueError ''The C-terminal part is N-protected!'')
        else
        and_then (checkPeptide_action left) (\<lambda>_.
        and_then (checkPeptide_action right) (\<lambda>_.
        with_temp_names [mouldname, lefttemp, righttemp]
          (fusion py mouldname lefttemp righttemp left right))))))"


end
